theory Spec2Isabelle
  imports Complex_Main
begin

section \<open>Python strings\<close>

text \<open>
  Strings are lists of ASCII characters. The model agrees with Python on ASCII text; code
  points beyond ASCII are outside the model (\<open>str.lower\<close> leaves them unchanged here).
  Python floats are idealised as exact reals, extended with the two infinities and NaN.
\<close>

definition lower_char :: "char \<Rightarrow> char" where
  "lower_char c =
     (case map_of (zip ''ABCDEFGHIJKLMNOPQRSTUVWXYZ'' ''abcdefghijklmnopqrstuvwxyz'') c of
        Some d \<Rightarrow> d
      | None \<Rightarrow> c)"

text \<open>\<open>s.lower()\<close>\<close>

definition lower :: "string \<Rightarrow> string" where
  "lower s = map lower_char s"

text \<open>\<open>str.isspace\<close> on ASCII: tab, newline, vertical tab, form feed, carriage return,
  the four separators 0x1c..0x1f and the space.\<close>

definition is_space :: "char \<Rightarrow> bool" where
  "is_space c \<longleftrightarrow> (of_char c :: nat) \<in> {9, 10, 11, 12, 13, 28, 29, 30, 31, 32}"

text \<open>\<open>s.strip()\<close>\<close>

definition strip :: "string \<Rightarrow> string" where
  "strip s = rev (dropWhile is_space (rev (dropWhile is_space s)))"

text \<open>\<open>s.startswith(pre)\<close>\<close>

definition startswith :: "string \<Rightarrow> string \<Rightarrow> bool" where
  "startswith pre s \<longleftrightarrow> take (length pre) s = pre"

text \<open>\<open>sub in s\<close> for two strings: \<open>sub\<close> occurs in \<open>s\<close> as a contiguous block.\<close>

fun contains :: "string \<Rightarrow> string \<Rightarrow> bool" where
  "contains sub [] = (sub = [])"
| "contains sub (c # cs) = (startswith sub (c # cs) \<or> contains sub cs)"

text \<open>\<open>s.replace(old, "")\<close>: the occurrences of \<open>old\<close> are deleted from left to right,
  without overlap. The counter is the number of characters of the current occurrence that are
  still to be skipped.\<close>

fun delete_from :: "string \<Rightarrow> nat \<Rightarrow> string \<Rightarrow> string" where
  "delete_from old k [] = []"
| "delete_from old (Suc k) (c # cs) = delete_from old k cs"
| "delete_from old 0 (c # cs) =
     (if startswith old (c # cs) then delete_from old (length old - 1) cs
      else c # delete_from old 0 cs)"

definition replace_empty :: "string \<Rightarrow> string \<Rightarrow> string" where
  "replace_empty old s = (if old = [] then s else delete_from old 0 s)"

text \<open>\<open>s.split(sep)\<close> for a one-character separator.\<close>

fun split_on :: "char \<Rightarrow> string \<Rightarrow> string list" where
  "split_on sep [] = [[]]"
| "split_on sep (c # cs) =
     (if c = sep then [] # split_on sep cs
      else (case split_on sep cs of
              w # ws \<Rightarrow> (c # w) # ws
            | [] \<Rightarrow> [[c]]))"

text \<open>\<open>s.split()\<close>: the maximal blocks of non-whitespace characters. The accumulator
  holds the current block, reversed.\<close>

fun split_ws_acc :: "string \<Rightarrow> string \<Rightarrow> string list" where
  "split_ws_acc acc [] = (if acc = [] then [] else [rev acc])"
| "split_ws_acc acc (c # cs) =
     (if is_space c then (if acc = [] then split_ws_acc [] cs else rev acc # split_ws_acc [] cs)
      else split_ws_acc (c # acc) cs)"

definition split_ws :: "string \<Rightarrow> string list" where
  "split_ws s = split_ws_acc [] s"

section \<open>Python number parsing\<close>

datatype py_error = TypeError | ValueError | ValidationError | ServiceError

definition is_digit :: "char \<Rightarrow> bool" where
  "is_digit c \<longleftrightarrow> c \<in> set ''0123456789''"

definition digit_val :: "char \<Rightarrow> nat" where
  "digit_val c = (case map_of (zip ''0123456789'' [0, 1, 2, 3, 4, 5, 6, 7, 8, 9]) c of
                    Some d \<Rightarrow> d
                  | None \<Rightarrow> 0)"

text \<open>A digit part of a Python numeric literal: digits, with single underscores allowed
  between two digits.\<close>

fun digits_ok :: "string \<Rightarrow> bool" where
  "digits_ok [] = False"
| "digits_ok [c] = is_digit c"
| "digits_ok (c # d # cs) =
     (is_digit c \<and> (if d = CHR ''_'' then digits_ok cs else digits_ok (d # cs)))"

definition digits_val :: "string \<Rightarrow> nat" where
  "digits_val s = foldl (\<lambda>a c. 10 * a + digit_val c) 0 (filter is_digit s)"

text \<open>The whitespace that \<open>int\<close> and \<open>float\<close> skip at both ends of an ASCII string: tab,
  newline, vertical tab, form feed, carriage return and the space. The separators
  0x1c..0x1f, which \<open>str.strip\<close> removes, are not among them.\<close>

definition is_c_space :: "char \<Rightarrow> bool" where
  "is_c_space c \<longleftrightarrow> (of_char c :: nat) \<in> {9, 10, 11, 12, 13, 32}"

definition number_strip :: "string \<Rightarrow> string" where
  "number_strip s = rev (dropWhile is_c_space (rev (dropWhile is_c_space s)))"

text \<open>\<open>int(s)\<close> in base ten; \<open>None\<close> stands for the \<open>ValueError\<close>. The interpreter's
  limit on the number of digits of a literal is not modelled.\<close>

definition py_int :: "string \<Rightarrow> int option" where
  "py_int s =
     (case number_strip s of
        [] \<Rightarrow> None
      | c # cs \<Rightarrow>
          if c = CHR ''-'' then (if digits_ok cs then Some (- int (digits_val cs)) else None)
          else if c = CHR ''+'' then (if digits_ok cs then Some (int (digits_val cs)) else None)
          else if digits_ok (c # cs) then Some (int (digits_val (c # cs)))
          else None)"

datatype pyfloat = Fin real | PosInf | NegInf | NaN

fun float_ge :: "pyfloat \<Rightarrow> pyfloat \<Rightarrow> bool" where
  "float_ge NaN y = False"
| "float_ge x NaN = False"
| "float_ge PosInf y = True"
| "float_ge x NegInf = True"
| "float_ge (Fin a) (Fin b) = (a \<ge> b)"
| "float_ge x y = False"

fun float_le :: "pyfloat \<Rightarrow> pyfloat \<Rightarrow> bool" where
  "float_le x y = float_ge y x"

fun float_neg :: "pyfloat \<Rightarrow> pyfloat" where
  "float_neg (Fin a) = Fin (- a)"
| "float_neg PosInf = NegInf"
| "float_neg NegInf = PosInf"
| "float_neg NaN = NaN"

text \<open>The text before the first occurrence of a character, and the text after it when
  the character occurs.\<close>

definition split_first :: "char \<Rightarrow> string \<Rightarrow> string \<times> string option" where
  "split_first c s =
     (takeWhile (\<lambda>x. x \<noteq> c) s,
      if c \<in> set s then Some (tl (dropWhile (\<lambda>x. x \<noteq> c) s)) else None)"

definition parse_mantissa :: "string \<Rightarrow> real option" where
  "parse_mantissa m =
     (case split_first CHR ''.'' m of
        (ip, None) \<Rightarrow> if digits_ok ip then Some (real (digits_val ip)) else None
      | (ip, Some fp) \<Rightarrow>
          if (ip = [] \<or> digits_ok ip) \<and> (fp = [] \<or> digits_ok fp) \<and> \<not> (ip = [] \<and> fp = [])
          then Some (real (digits_val ip)
                     + real (digits_val fp) / 10 ^ length (filter is_digit fp))
          else None)"

definition parse_exponent :: "string \<Rightarrow> int option" where
  "parse_exponent e =
     (case e of
        [] \<Rightarrow> None
      | c # cs \<Rightarrow>
          if c = CHR ''-'' then (if digits_ok cs then Some (- int (digits_val cs)) else None)
          else if c = CHR ''+'' then (if digits_ok cs then Some (int (digits_val cs)) else None)
          else if digits_ok (c # cs) then Some (int (digits_val (c # cs)))
          else None)"

definition scale10 :: "real \<Rightarrow> int \<Rightarrow> real" where
  "scale10 v k = (if k \<ge> 0 then v * 10 ^ nat k else v / 10 ^ nat (- k))"

text \<open>The unsigned part of a float literal, already lowercased.\<close>

definition parse_unsigned :: "string \<Rightarrow> pyfloat option" where
  "parse_unsigned b =
     (if b = ''inf'' \<or> b = ''infinity'' then Some PosInf
      else if b = ''nan'' then Some NaN
      else (case split_first CHR ''e'' b of
              (m, None) \<Rightarrow> map_option Fin (parse_mantissa m)
            | (m, Some ex) \<Rightarrow>
                (case parse_mantissa m of
                   None \<Rightarrow> None
                 | Some v \<Rightarrow>
                     (case parse_exponent ex of
                        None \<Rightarrow> None
                      | Some k \<Rightarrow> Some (Fin (scale10 v k))))))"

text \<open>\<open>float(s)\<close>; \<open>None\<close> stands for the \<open>ValueError\<close>. The value is the exact
  decimal value: rounding to a double and overflow to infinity are not modelled.\<close>

definition py_float :: "string \<Rightarrow> pyfloat option" where
  "py_float s =
     (case number_strip s of
        [] \<Rightarrow> None
      | c # cs \<Rightarrow>
          if c = CHR ''-'' then map_option float_neg (parse_unsigned (lower cs))
          else if c = CHR ''+'' then parse_unsigned (lower cs)
          else parse_unsigned (lower (c # cs)))"

section \<open>Biomarker matching\<close>

definition positive_terms :: "string list" where
  "positive_terms = [''positive'', ''pos'', ''+'', ''yes'', ''detected'', ''present'']"

definition negative_terms :: "string list" where
  "negative_terms = [''negative'', ''neg'', ''-'', ''no'', ''not detected'', ''absent'']"

text \<open>\<open>MeTTaReasoner._biomarker_matches\<close>. A \<open>ValueError\<close> of either \<open>float\<close> call is
  caught by the \<open>except\<close> clause, after which the function returns \<open>False\<close>; when the
  requirement holds only a strict comparison sign the \<open>try\<close> block falls through.\<close>

definition biomarker_matches :: "string \<Rightarrow> string \<Rightarrow> bool" where
  "biomarker_matches patient_value required_value =
     (if patient_value = required_value then True
      else if patient_value \<in> set positive_terms \<and> required_value \<in> set positive_terms then True
      else if patient_value \<in> set negative_terms \<and> required_value \<in> set negative_terms then True
      else if contains ''>='' required_value \<or> contains ''<='' required_value
              \<or> contains ''>'' required_value \<or> contains ''<'' required_value
      then (case py_float (strip (replace_empty ''%'' patient_value)) of
              None \<Rightarrow> False
            | Some patient_num \<Rightarrow>
                if contains ''>='' required_value
                then (case py_float (strip (replace_empty ''%''
                                              (replace_empty ''>='' required_value))) of
                        None \<Rightarrow> False
                      | Some threshold \<Rightarrow> float_ge patient_num threshold)
                else if contains ''<='' required_value
                then (case py_float (strip (replace_empty ''%''
                                              (replace_empty ''<='' required_value))) of
                        None \<Rightarrow> False
                      | Some threshold \<Rightarrow> float_le patient_num threshold)
                else False)
      else False)"

section \<open>Data model\<close>

text \<open>
  Modelled from the spec: the subject profile and the offering that the matcher reads
  (\<open>PatientProfile\<close> and \<open>Trial\<close> with the attributes used in \<open>matcher_agent.py\<close>; the
  declarations among the sources are of a later schema and do not have these attributes).
  The fields are the ones of the spec's data model. The repository declares the condition
  and medication lists of a profile and the condition list of a trial as
  \<open>Optional[List]\<close> with default \<open>None\<close>, so these three are options here; a dictionary
  is the list of its items in insertion order.
\<close>

record patient_profile =
  age_range :: "string option"
  gender :: "string option"
  conditions :: "string list option"
  biomarkers :: "(string \<times> string) list"
  medications :: "string list option"
  ethnicity :: "string option"
  location_region :: "string option"

record trial =
  trial_uuid :: nat
  nct_id :: string
  trial_conditions :: "string list option"
  age_min :: "int option"
  age_max :: "int option"
  gender_eligibility :: string
  required_biomarkers :: "(string \<times> string) list"
  excluded_conditions :: "string list"
  excluded_medications :: "string list"


section \<open>The five rules\<close>

text \<open>\<open>x or d\<close> for an optional integer: \<open>None\<close> and \<open>0\<close> are both falsy.\<close>

definition py_or :: "int option \<Rightarrow> int \<Rightarrow> int" where
  "py_or x d = (case x of None \<Rightarrow> d | Some v \<Rightarrow> if v = 0 then d else v)"

text \<open>The \<open>try\<close> block shared by \<open>_rule_age_in_range\<close> and \<open>_check_age\<close>: the forms
  \<open>A-B\<close>, \<open>A+\<close> and \<open>A\<close>; \<open>None\<close> stands for the \<open>ValueError\<close> that both callers catch.
  \<open>str.split\<close> never returns the empty list, so the first case is never taken.\<close>

definition parse_age_range :: "string \<Rightarrow> (int \<times> int) option" where
  "parse_age_range s =
     (if CHR ''-'' \<in> set s then
        (case split_on CHR ''-'' (replace_empty ''+'' s) of
           [] \<Rightarrow> None
         | [a] \<Rightarrow> map_option (\<lambda>lo. (lo, 120)) (py_int a)
         | a # b # _ \<Rightarrow>
             (case py_int a of
                None \<Rightarrow> None
              | Some lo \<Rightarrow> (case py_int b of None \<Rightarrow> None | Some hi \<Rightarrow> Some (lo, hi))))
      else if CHR ''+'' \<in> set s then
        map_option (\<lambda>lo. (lo, 120)) (py_int (replace_empty ''+'' s))
      else map_option (\<lambda>v. (v, v)) (py_int s))"

text \<open>\<open>MeTTaReasoner._rule_age_in_range\<close>\<close>

definition rule_age_in_range :: "patient_profile \<Rightarrow> trial \<Rightarrow> real" where
  "rule_age_in_range p t =
     (case age_range p of
        None \<Rightarrow> 1 / 2
      | Some s \<Rightarrow>
          if s = [] then 1 / 2
          else (case parse_age_range s of
                  None \<Rightarrow> 1 / 2
                | Some (patient_age_min, patient_age_max) \<Rightarrow>
                    (let trial_min = py_or (age_min t) 0;
                         trial_max = py_or (age_max t) 120
                     in if patient_age_max < trial_min \<or> patient_age_min > trial_max then 0
                        else (let overlap_min = max patient_age_min trial_min;
                                  overlap_max = min patient_age_max trial_max;
                                  patient_range = patient_age_max - patient_age_min + 1;
                                  overlap_range = overlap_max - overlap_min + 1
                              in if patient_range > 0
                                 then real_of_int overlap_range / real_of_int patient_range
                                 else 1))))"

text \<open>\<open>MeTTaReasoner._rule_gender_match\<close>\<close>

definition rule_gender_match :: "patient_profile \<Rightarrow> trial \<Rightarrow> real" where
  "rule_gender_match p t =
     (let trial_gender = lower (gender_eligibility t)
      in if trial_gender = ''all'' then 1
         else (case gender p of
                 None \<Rightarrow> 1 / 2
               | Some g \<Rightarrow>
                   if g = [] then 1 / 2
                   else if lower g = trial_gender then 1
                   else 0))"

text \<open>The dictionary comprehension of \<open>_rule_has_biomarkers\<close>: keys and values are
  lowercased, and of two items with the same lowercased key the later one stays.\<close>

definition patient_biomarkers_lower :: "patient_profile \<Rightarrow> string \<Rightarrow> string option" where
  "patient_biomarkers_lower p = map_of (rev (map (\<lambda>(k, v). (lower k, lower v)) (biomarkers p)))"

definition biomarker_satisfied :: "patient_profile \<Rightarrow> string \<times> string \<Rightarrow> bool" where
  "biomarker_satisfied p item =
     (case item of
        (biomarker, required_value) \<Rightarrow>
          (case patient_biomarkers_lower p (lower biomarker) of
             None \<Rightarrow> False
           | Some patient_value \<Rightarrow> biomarker_matches patient_value (lower required_value)))"

text \<open>\<open>MeTTaReasoner._rule_has_biomarkers\<close>\<close>

definition rule_has_biomarkers :: "patient_profile \<Rightarrow> trial \<Rightarrow> real" where
  "rule_has_biomarkers p t =
     (let required = required_biomarkers t
      in if required = [] then 1
         else (let matched = length (filter (biomarker_satisfied p) required);
                   total = length required
               in if total > 0 then real matched / real total else 1))"

definition variations :: "(string \<times> string list) list" where
  "variations =
     [(''nsclc'', [''non-small cell lung cancer'', ''non small cell lung cancer'']),
      (''sclc'', [''small cell lung cancer'']),
      (''t2d'', [''type 2 diabetes'', ''diabetes type 2'', ''diabetes mellitus type 2'']),
      (''t1d'', [''type 1 diabetes'', ''diabetes type 1'', ''diabetes mellitus type 1'']),
      (''crc'', [''colorectal cancer'', ''colon cancer'', ''rectal cancer'']),
      (''hcc'', [''hepatocellular carcinoma'', ''liver cancer'']),
      (''rcc'', [''renal cell carcinoma'', ''kidney cancer''])]"

definition stop_words :: "string list" where
  "stop_words = [''disease'', ''disorder'', ''syndrome'', ''type'', ''stage'', ''cancer'',
                 ''chronic'', ''acute'']"

text \<open>\<open>MeTTaReasoner._condition_similar\<close>. The two word sets are kept as duplicate-free
  lists: \<open>common_words\<close> lists the intersection once per word.\<close>

definition condition_similar :: "string \<Rightarrow> string \<Rightarrow> bool" where
  "condition_similar cond1 cond2 =
     (if cond1 = cond2 then True
      else if contains cond1 cond2 \<or> contains cond2 cond1 then True
      else if list_ex (\<lambda>(abbrev, full_forms).
                         (cond1 = abbrev \<or> cond1 \<in> set full_forms)
                         \<and> (cond2 = abbrev \<or> cond2 \<in> set full_forms)) variations then True
      else (let words1 = split_ws cond1;
                words2 = split_ws cond2;
                common_words = remdups (filter (\<lambda>w. w \<in> set words2) words1);
                meaningful_common = filter (\<lambda>w. w \<notin> set stop_words) common_words
            in length meaningful_common \<ge> 1 \<and> length common_words \<ge> 2))"

text \<open>\<open>MeTTaReasoner._rule_condition_match\<close>. Iterating over a list that is \<open>None\<close>
  raises a \<open>TypeError\<close>; the trial's list is read first.\<close>

definition rule_condition_match :: "patient_profile \<Rightarrow> trial \<Rightarrow> py_error + real" where
  "rule_condition_match p t =
     (case trial_conditions t of
        None \<Rightarrow> Inl TypeError
      | Some tcs \<Rightarrow>
          (case conditions p of
             None \<Rightarrow> Inl TypeError
           | Some pcs \<Rightarrow>
               (let trial_conds = map lower tcs;
                    patient_conds = map lower pcs
                in if trial_conds = [] then Inr (1 / 2)
                   else if patient_conds = [] then Inr 0
                   else (let matched = length (filter (\<lambda>trial_cond.
                                 list_ex (\<lambda>patient_cond. condition_similar trial_cond patient_cond)
                                   patient_conds) trial_conds)
                         in Inr (real matched / real (length trial_conds))))))"

text \<open>\<open>MeTTaReasoner._rule_no_contraindications\<close>. The medication list of the patient is
  read only when no excluded condition was found.\<close>

definition rule_no_contraindications :: "patient_profile \<Rightarrow> trial \<Rightarrow> py_error + real" where
  "rule_no_contraindications p t =
     (let excluded_conds = map lower (excluded_conditions t)
      in case conditions p of
           None \<Rightarrow> Inl TypeError
         | Some pcs \<Rightarrow>
             (let patient_conds = map lower pcs
              in if list_ex (\<lambda>excl. list_ex (\<lambda>patient_cond. condition_similar excl patient_cond)
                                      patient_conds) excluded_conds
                 then Inr 0
                 else (let excluded_meds = map lower (excluded_medications t)
                       in case medications p of
                            None \<Rightarrow> Inl TypeError
                          | Some pms \<Rightarrow>
                              (let patient_meds = map lower pms
                               in if list_ex (\<lambda>excl. list_ex (\<lambda>patient_med.
                                                contains excl patient_med \<or> contains patient_med excl)
                                                patient_meds) excluded_meds
                                  then Inr 0
                                  else Inr 1))))"

section \<open>Aggregation\<close>

text \<open>The reasoning trace, as the data it is printed from: the trial, the timestamp line,
  the five named scores and the conclusion. The log lines of the single rules are text
  only and are left out.\<close>

record trace =
  tr_nct_id :: string
  tr_timestamp :: string
  tr_scores :: "(string \<times> real) list"
  tr_conclusion :: bool

definition critical_rules :: "string list" where
  "critical_rules = [''age_eligibility'', ''gender_eligibility'', ''no_contraindications'']"

definition weights :: "(string \<times> real) list" where
  "weights = [(''age_eligibility'', 15 / 100), (''gender_eligibility'', 10 / 100),
              (''biomarker_match'', 30 / 100), (''condition_match'', 30 / 100),
              (''no_contraindications'', 15 / 100)]"

text \<open>\<open>weights.get(name, 0.2)\<close>\<close>

definition weights_get :: "string \<Rightarrow> real" where
  "weights_get name = (case map_of weights name of Some w \<Rightarrow> w | None \<Rightarrow> 2 / 10)"

text \<open>\<open>MeTTaReasoner._generate_metta_trace\<close>\<close>

definition generate_metta_trace :: "string \<Rightarrow> trial \<Rightarrow> (string \<times> real) list \<Rightarrow> trace" where
  "generate_metta_trace now t scores =
     \<lparr>tr_nct_id = nct_id t, tr_timestamp = now, tr_scores = scores,
      tr_conclusion = list_all (\<lambda>(name, s). s \<ge> 1 / 2)
                        (filter (\<lambda>(name, s). name \<in> set critical_rules) scores)\<rparr>"

text \<open>The list \<open>scores\<close> that \<open>reason\<close> builds, rule by rule; an exception of a rule ends
  the call.\<close>

definition rule_scores :: "patient_profile \<Rightarrow> trial \<Rightarrow> py_error + (string \<times> real) list" where
  "rule_scores p t =
     (let age_result = rule_age_in_range p t;
          gender_result = rule_gender_match p t;
          biomarker_result = rule_has_biomarkers p t
      in case rule_condition_match p t of
           Inl e \<Rightarrow> Inl e
         | Inr condition_result \<Rightarrow>
             (case rule_no_contraindications p t of
                Inl e \<Rightarrow> Inl e
              | Inr contraindication_result \<Rightarrow>
                  Inr [(''age_eligibility'', age_result),
                       (''gender_eligibility'', gender_result),
                       (''biomarker_match'', biomarker_result),
                       (''condition_match'', condition_result),
                       (''no_contraindications'', contraindication_result)]))"

text \<open>\<open>MeTTaReasoner.reason\<close>; the first argument is the reading of the clock.\<close>

definition reason :: "string \<Rightarrow> patient_profile \<Rightarrow> trial \<Rightarrow> py_error + (bool \<times> real \<times> trace)" where
  "reason now p t =
     (case rule_scores p t of
        Inl e \<Rightarrow> Inl e
      | Inr scores \<Rightarrow>
          (let critical_scores = map snd (filter (\<lambda>(name, s). name \<in> set critical_rules) scores);
               verdict =
                 (if list_ex (\<lambda>s. s < 1 / 2) critical_scores
                  then (False, sum_list (map snd scores) / real (length scores) * (3 / 10))
                  else (True, sum_list (map (\<lambda>(name, score). weights_get name * score) scores)))
           in Inr (fst verdict, min (snd verdict * 100) 100,
                   generate_metta_trace now t scores)))"

section \<open>Diversity bonus\<close>

definition underrepresented_ethnicities :: "string list" where
  "underrepresented_ethnicities =
     [''african_american'', ''hispanic'', ''native_american'', ''pacific_islander'']"

definition rural_indicators :: "string list" where
  "rural_indicators = [''rural'', ''remote'', ''countryside'']"

text \<open>\<open>MeTTaReasoner.calculate_diversity_bonus\<close>: the four tests in the order of the
  source, each adding to the running bonus and appending its factor. A field that is
  \<open>None\<close> or the empty string is falsy and skips its test.\<close>

definition calculate_diversity_bonus :: "patient_profile \<Rightarrow> real \<times> string list" where
  "calculate_diversity_bonus p =
     (let s0 = (0, []);
          s1 = (case ethnicity p of
                  None \<Rightarrow> s0
                | Some e \<Rightarrow>
                    if e \<noteq> [] \<and> lower e \<in> set underrepresented_ethnicities
                    then (fst s0 + 5, snd s0 @ [''underrepresented_ethnicity:'' @ e])
                    else s0);
          s2 = (case gender p of
                  None \<Rightarrow> s1
                | Some g \<Rightarrow>
                    if g \<noteq> [] \<and> lower g = ''female''
                    then (fst s1 + 3, snd s1 @ [''gender:female''])
                    else s1);
          s3 = (case location_region p of
                  None \<Rightarrow> s2
                | Some l \<Rightarrow>
                    if l \<noteq> [] \<and> list_ex (\<lambda>ind. contains ind (lower l)) rural_indicators
                    then (fst s2 + 3, snd s2 @ [''location:rural''])
                    else s2);
          s4 = (case age_range p of
                  None \<Rightarrow> s3
                | Some a \<Rightarrow>
                    if a \<noteq> [] \<and> contains ''65'' a
                    then (fst s3 + 2, snd s3 @ [''age:65+''])
                    else s3)
      in (min (fst s4) 15, snd s4))"

section \<open>Criteria checks\<close>

text \<open>
  \<open>CriteriaCheck\<close> of \<open>models/match.py\<close>: the fields \<open>criterion\<close>, \<open>passed\<close>, the required
  \<open>confidence\<close>, which has to lie in [0, 1], and \<open>reason\<close>, which defaults to the empty
  string. The text of a criterion is kept as the data it is printed from.
\<close>

datatype criterion =
    AgeBetween int int
  | HasTargetCondition "string list"
  | BiomarkerIs string string
  | DoesNotHave string
  | NotTaking string

record criteria_check =
  criterion :: criterion
  passed :: bool
  confidence :: real
  check_reason :: string

text \<open>The constructor call \<open>CriteriaCheck(criterion=..., passed=..., ...)\<close>. The third
  argument is the keyword \<open>confidence\<close>, \<open>None\<close> when the call does not give it: a required
  field that is missing, or a confidence outside [0, 1], raises a \<open>ValidationError\<close>.
  Keywords that name no field of the model (\<open>value\<close>, \<open>required\<close>, \<open>reasoning\<close>) are
  ignored. No call in \<open>matcher_agent.py\<close> gives \<open>confidence\<close>.\<close>

definition CriteriaCheck :: "criterion \<Rightarrow> bool \<Rightarrow> real option \<Rightarrow> py_error + criteria_check" where
  "CriteriaCheck crit ok conf =
     (case conf of
        None \<Rightarrow> Inl ValidationError
      | Some x \<Rightarrow>
          if 0 \<le> x \<and> x \<le> 1
          then Inr \<lparr>criterion = crit, passed = ok, confidence = x, check_reason = []\<rparr>
          else Inl ValidationError)"

text \<open>A loop that appends one constructed object per item: the first exception ends it.\<close>

fun build_each :: "('a \<Rightarrow> py_error + 'b) \<Rightarrow> 'a list \<Rightarrow> py_error + 'b list" where
  "build_each f [] = Inr []"
| "build_each f (x # xs) =
     (case f x of
        Inl e \<Rightarrow> Inl e
      | Inr y \<Rightarrow> (case build_each f xs of Inl e \<Rightarrow> Inl e | Inr ys \<Rightarrow> Inr (y # ys)))"

text \<open>\<open>MatcherAgent._check_age\<close>\<close>

definition check_age :: "string option \<Rightarrow> int option \<Rightarrow> int option \<Rightarrow> bool" where
  "check_age patient_age_range trial_min trial_max =
     (case patient_age_range of
        None \<Rightarrow> True
      | Some s \<Rightarrow>
          if s = [] then True
          else (case parse_age_range s of
                  None \<Rightarrow> True
                | Some (patient_min, patient_max) \<Rightarrow>
                    (let t_min = py_or trial_min 0;
                         t_max = py_or trial_max 120
                     in \<not> (patient_max < t_min \<or> patient_min > t_max))))"

text \<open>\<open>d.get(k1) or d.get(k2)\<close> on the patient's own biomarker dictionary: an absent or
  empty first value gives way to the second lookup.\<close>

definition biomarkers_get_or :: "patient_profile \<Rightarrow> string \<Rightarrow> string \<Rightarrow> string option" where
  "biomarkers_get_or p k1 k2 =
     (case map_of (biomarkers p) k1 of
        None \<Rightarrow> map_of (biomarkers p) k2
      | Some v \<Rightarrow> if v = [] then map_of (biomarkers p) k2 else Some v)"

text \<open>The value \<open>passed\<close> that the biomarker loop of \<open>_build_inclusion_checks\<close> computes for
  one required biomarker.\<close>

definition biomarker_passed :: "patient_profile \<Rightarrow> string \<times> string \<Rightarrow> bool" where
  "biomarker_passed p item =
     (case item of
        (biomarker, required_value) \<Rightarrow>
          (case biomarkers_get_or p (lower biomarker) biomarker of
             None \<Rightarrow> False
           | Some v \<Rightarrow>
               if v = [] then False
               else biomarker_matches (lower v) (lower required_value)))"

definition biomarker_check :: "patient_profile \<Rightarrow> string \<times> string \<Rightarrow> py_error + criteria_check" where
  "biomarker_check p item =
     CriteriaCheck (BiomarkerIs (fst item) (snd item)) (biomarker_passed p item) None"

text \<open>\<open>MatcherAgent._build_inclusion_checks\<close>: the age check, the condition check, then one
  check per required biomarker. The arguments of a constructor call are evaluated before
  the call; slicing the trial's condition list raises a \<open>TypeError\<close> when the list is
  \<open>None\<close>.\<close>

definition build_inclusion_checks :: "patient_profile \<Rightarrow> trial \<Rightarrow> py_error + criteria_check list" where
  "build_inclusion_checks p t =
     (case CriteriaCheck (AgeBetween (py_or (age_min t) 0) (py_or (age_max t) 120))
             (check_age (age_range p) (age_min t) (age_max t)) None of
        Inl e \<Rightarrow> Inl e
      | Inr age_check \<Rightarrow>
          (let condition_match =
                 (case trial_conditions t of
                    None \<Rightarrow> False
                  | Some tcs \<Rightarrow>
                      (case conditions p of
                         None \<Rightarrow> False
                       | Some pcs \<Rightarrow>
                           tcs \<noteq> [] \<and> pcs \<noteq> []
                           \<and> list_ex (\<lambda>tc. list_ex (\<lambda>pc. condition_similar (lower tc) (lower pc))
                                              pcs) tcs))
           in case trial_conditions t of
                None \<Rightarrow> Inl TypeError
              | Some tcs \<Rightarrow>
                  (case CriteriaCheck (HasTargetCondition (take 3 tcs)) condition_match None of
                     Inl e \<Rightarrow> Inl e
                   | Inr condition_check \<Rightarrow>
                       (case build_each (biomarker_check p) (required_biomarkers t) of
                          Inl e \<Rightarrow> Inl e
                        | Inr biomarker_checks \<Rightarrow>
                            Inr ([age_check, condition_check] @ biomarker_checks)))))"

definition excluded_condition_check :: "patient_profile \<Rightarrow> string \<Rightarrow> py_error + criteria_check" where
  "excluded_condition_check p excl_cond =
     (let has_condition =
            (case conditions p of
               None \<Rightarrow> False
             | Some pcs \<Rightarrow> list_ex (\<lambda>pc. condition_similar (lower excl_cond) (lower pc)) pcs)
      in CriteriaCheck (DoesNotHave excl_cond) (\<not> has_condition) None)"

definition excluded_medication_check :: "patient_profile \<Rightarrow> string \<Rightarrow> py_error + criteria_check" where
  "excluded_medication_check p excl_med =
     (let takes_medication =
            (case medications p of
               None \<Rightarrow> False
             | Some pms \<Rightarrow>
                 list_ex (\<lambda>pm. contains (lower excl_med) (lower pm)
                               \<or> contains (lower pm) (lower excl_med)) pms)
      in CriteriaCheck (NotTaking excl_med) (\<not> takes_medication) None)"

text \<open>\<open>MatcherAgent._build_exclusion_checks\<close>: at most five checks for the excluded
  conditions, then at most five for the excluded medications.\<close>

definition build_exclusion_checks :: "patient_profile \<Rightarrow> trial \<Rightarrow> py_error + criteria_check list" where
  "build_exclusion_checks p t =
     (case build_each (excluded_condition_check p) (take 5 (excluded_conditions t)) of
        Inl e \<Rightarrow> Inl e
      | Inr condition_checks \<Rightarrow>
          (case build_each (excluded_medication_check p) (take 5 (excluded_medications t)) of
             Inl e \<Rightarrow> Inl e
           | Inr medication_checks \<Rightarrow> Inr (condition_checks @ medication_checks)))"

section \<open>Evaluating one trial\<close>

datatype confidence_level = HIGH | MEDIUM | LOW | MARGINAL

text \<open>\<open>MatcherAgent._get_confidence_level\<close>\<close>

definition get_confidence_level :: "real \<Rightarrow> confidence_level" where
  "get_confidence_level score =
     (if score \<ge> 80 then HIGH
      else if score \<ge> 60 then MEDIUM
      else if score \<ge> 40 then LOW
      else MARGINAL)"

text \<open>The explanation of a match: the stripped answer of the language model, or the
  fallback sentence, which is a fixed template around the confidence.\<close>

datatype explanation = Generated string | Fallback real

text \<open>The prompt, as the data its text is printed from.\<close>

record prompt =
  pr_patient :: patient_profile
  pr_trial :: trial
  pr_is_eligible :: bool
  pr_confidence :: real
  pr_reasoning :: trace

type_synonym llm_service = "prompt \<Rightarrow> py_error + string"

text \<open>\<open>MatcherAgent._generate_explanation\<close>. The prompt is built outside the \<open>try\<close>
  block and joins the trial's condition list, a \<open>TypeError\<close> when that list is \<open>None\<close>;
  every exception of the service call is caught and replaced by the fallback.\<close>

definition generate_explanation ::
  "llm_service \<Rightarrow> patient_profile \<Rightarrow> trial \<Rightarrow> bool \<Rightarrow> real \<Rightarrow> trace \<Rightarrow> py_error + explanation" where
  "generate_explanation llm p t eligible score metta =
     (case trial_conditions t of
        None \<Rightarrow> Inl TypeError
      | Some _ \<Rightarrow>
          (case llm \<lparr>pr_patient = p, pr_trial = t, pr_is_eligible = eligible,
                     pr_confidence = score, pr_reasoning = metta\<rparr> of
             Inl e \<Rightarrow> Inr (Fallback score)
           | Inr response \<Rightarrow> Inr (Generated (strip response))))"

text \<open>
  \<open>MatchCreate\<close> of \<open>models/match.py\<close>: the two identifiers, the \<open>confidence_score\<close>, which
  has to lie in [0, 1], the optional scores and explanation, and the \<open>status\<close>, which
  defaults to \<open>pending\<close>. The optional dictionary fields, which no call sets, are left out.
\<close>

record match_create =
  patient_id :: nat
  trial_id :: nat
  confidence_score :: real
  eligibility_score :: "real option"
  location_score :: "real option"
  preference_score :: "real option"
  ai_explanation :: "string option"
  status :: string
  created_by :: "string option"

text \<open>The constructor call \<open>MatchCreate(patient_id=..., trial_id=..., confidence_score=...,
  ...)\<close> of \<open>_evaluate_trial\<close>. All its other keywords (\<open>matching_criteria\<close>,
  \<open>metta_reasoning\<close>, \<open>gemini_explanation\<close>, the two checklists, the bonus and its factors,
  \<open>distance_score\<close>, \<open>nearest_site\<close>) name no field of the model and are ignored; a
  confidence outside [0, 1] raises a \<open>ValidationError\<close>.\<close>

definition MatchCreate :: "nat \<Rightarrow> nat \<Rightarrow> real \<Rightarrow> py_error + match_create" where
  "MatchCreate pid tid score =
     (if 0 \<le> score \<and> score \<le> 1
      then Inr \<lparr>patient_id = pid, trial_id = tid, confidence_score = score,
                eligibility_score = None, location_score = None, preference_score = None,
                ai_explanation = None, status = ''pending'', created_by = None\<rparr>
      else Inl ValidationError)"

text \<open>What steps 1 to 3 of \<open>_evaluate_trial\<close> compute, under the names of the local
  variables.\<close>

record scoring =
  is_eligible :: bool
  base_confidence :: real
  metta_reasoning :: trace
  diversity_bonus :: real
  diversity_factors :: "string list"
  final_confidence :: real

text \<open>Steps 1 to 3 of \<open>MatcherAgent._evaluate_trial\<close>: the symbolic reasoning, the
  diversity bonus and the adjusted confidence \<open>min(base_confidence + diversity_bonus,
  100.0)\<close>.\<close>

definition score_trial :: "string \<Rightarrow> patient_profile \<Rightarrow> trial \<Rightarrow> py_error + scoring" where
  "score_trial now p t =
     (case reason now p t of
        Inl e \<Rightarrow> Inl e
      | Inr (eligible, base, metta) \<Rightarrow>
          (let bonus = calculate_diversity_bonus p
           in Inr \<lparr>is_eligible = eligible, base_confidence = base, metta_reasoning = metta,
                   diversity_bonus = fst bonus, diversity_factors = snd bonus,
                   final_confidence = min (base + fst bonus) 100\<rparr>))"

text \<open>The body of the \<open>try\<close> block of \<open>MatcherAgent._evaluate_trial\<close>: the scoring, the
  explanation, the two checklists and the construction of the match. The confidence level
  of step 6 only feeds a keyword that \<open>MatchCreate\<close> ignores.\<close>

definition evaluate_trial_body ::
  "string \<Rightarrow> llm_service \<Rightarrow> nat \<Rightarrow> patient_profile \<Rightarrow> trial \<Rightarrow> py_error + match_create" where
  "evaluate_trial_body now llm pid p t =
     (case score_trial now p t of
        Inl e \<Rightarrow> Inl e
      | Inr s \<Rightarrow>
          (case generate_explanation llm p t (is_eligible s) (final_confidence s)
                  (metta_reasoning s) of
             Inl e \<Rightarrow> Inl e
           | Inr expl \<Rightarrow>
               (case build_inclusion_checks p t of
                  Inl e \<Rightarrow> Inl e
                | Inr inclusion \<Rightarrow>
                    (case build_exclusion_checks p t of
                       Inl e \<Rightarrow> Inl e
                     | Inr exclusion \<Rightarrow> MatchCreate pid (trial_uuid t) (final_confidence s)))))"

text \<open>\<open>MatcherAgent._evaluate_trial\<close>: the \<open>except Exception\<close> clause around the whole
  body logs the exception and returns \<open>None\<close>. The result type keeps the place of an
  exception that would leave the function.\<close>

definition evaluate_trial ::
  "string \<Rightarrow> llm_service \<Rightarrow> nat \<Rightarrow> patient_profile \<Rightarrow> trial \<Rightarrow> py_error + match_create option" where
  "evaluate_trial now llm pid p t =
     (case evaluate_trial_body now llm pid p t of
        Inl e \<Rightarrow> Inr None
      | Inr m \<Rightarrow> Inr (Some m))"

section \<open>The batch\<close>

text \<open>The loop over the gathered results: exceptions and \<open>None\<close> are skipped, a match is
  kept when its confidence reaches the threshold.\<close>

fun collect :: "real \<Rightarrow> (py_error + match_create option) list \<Rightarrow> match_create list" where
  "collect min_confidence [] = []"
| "collect min_confidence (Inl e # rs) = collect min_confidence rs"
| "collect min_confidence (Inr None # rs) = collect min_confidence rs"
| "collect min_confidence (Inr (Some m) # rs) =
     (if confidence_score m \<ge> min_confidence then m # collect min_confidence rs
      else collect min_confidence rs)"

text \<open>\<open>xs.sort(key=k, reverse=True)\<close>: a stable sort, descending; elements with equal keys
  keep their order, which is the stable ascending sort of the reversed list, reversed.\<close>

definition py_sort_desc :: "('a \<Rightarrow> real) \<Rightarrow> 'a list \<Rightarrow> 'a list" where
  "py_sort_desc k xs = rev (sort_key k (rev xs))"

text \<open>\<open>xs[:n]\<close>; a negative \<open>n\<close> counts from the end.\<close>

definition py_slice_to :: "int \<Rightarrow> 'a list \<Rightarrow> 'a list" where
  "py_slice_to n xs = (if n \<ge> 0 then take (nat n) xs else take (length xs - nat (- n)) xs)"

text \<open>\<open>asyncio.gather(*tasks, return_exceptions=True)\<close>: the outcomes in the order of the
  trials; the evaluation at position \<open>i\<close> reads the clock as \<open>clock i\<close>.\<close>

definition gather ::
  "(nat \<Rightarrow> string) \<Rightarrow> llm_service \<Rightarrow> nat \<Rightarrow> patient_profile \<Rightarrow> trial list
     \<Rightarrow> (py_error + match_create option) list" where
  "gather clock llm pid p trials =
     map (\<lambda>(i, t). evaluate_trial (clock i) llm pid p t) (enumerate 0 trials)"

text \<open>\<open>MatcherAgent.find_matches\<close>\<close>

definition find_matches ::
  "(nat \<Rightarrow> string) \<Rightarrow> llm_service \<Rightarrow> nat \<Rightarrow> patient_profile \<Rightarrow> trial list \<Rightarrow> real \<Rightarrow> int
     \<Rightarrow> match_create list" where
  "find_matches clock llm pid p trials min_confidence top_k =
     (let results = gather clock llm pid p trials;
          matches = collect min_confidence results
      in py_slice_to top_k (py_sort_desc confidence_score matches))"

section \<open>The matching predicate as the specification words it\<close>

definition strip_trailing_percent :: "string \<Rightarrow> string" where
  "strip_trailing_percent s = (if s \<noteq> [] \<and> last s = CHR ''%'' then butlast s else s)"

text \<open>The numeric comparison of the specification: the observed value and the threshold,
  each without a trailing percent sign, parse as numbers that compare as asked; a parse
  failure gives \<open>False\<close>.\<close>

definition numeric_holds :: "(pyfloat \<Rightarrow> pyfloat \<Rightarrow> bool) \<Rightarrow> string \<Rightarrow> string \<Rightarrow> bool" where
  "numeric_holds cmp observed_value threshold =
     (case py_float (strip_trailing_percent observed_value) of
        None \<Rightarrow> False
      | Some x \<Rightarrow>
          (case py_float (strip_trailing_percent threshold) of
             None \<Rightarrow> False
           | Some th \<Rightarrow> cmp x th))"

text \<open>\<open>biomarkerMatches\<close> following the words of the specification, to be compared with
  \<open>biomarker_matches\<close>, which follows the source: equal strings, two positive synonyms,
  two negative synonyms, or a requirement that starts with \<open>>=\<close> or \<open><=\<close> and whose
  comparison holds.\<close>

definition biomarkerMatches_spec :: "string \<Rightarrow> string \<Rightarrow> bool" where
  "biomarkerMatches_spec observed_value required_expr \<longleftrightarrow>
     observed_value = required_expr
     \<or> (observed_value \<in> set positive_terms \<and> required_expr \<in> set positive_terms)
     \<or> (observed_value \<in> set negative_terms \<and> required_expr \<in> set negative_terms)
     \<or> (startswith ''>='' required_expr \<and> numeric_holds float_ge observed_value (drop 2 required_expr))
     \<or> (startswith ''<='' required_expr \<and> numeric_holds float_le observed_value (drop 2 required_expr))"

section \<open>What two evaluations are compared on\<close>

text \<open>The rule scores, the eligibility, the base confidence, the bonus with its factors
  and the final confidence of a scoring: everything but the timestamp of the trace.\<close>

definition deterministic_part ::
  "scoring \<Rightarrow> (string \<times> real) list \<times> bool \<times> real \<times> real \<times> string list \<times> real" where
  "deterministic_part s =
     (tr_scores (metta_reasoning s), is_eligible s, base_confidence s, diversity_bonus s,
      diversity_factors s, final_confidence s)"

section \<open>Example profiles and trials\<close>


text \<open>A profile with empty lists and a trial without requirements.\<close>

definition blank_patient :: patient_profile where
  "blank_patient =
     \<lparr>age_range = None, gender = None, conditions = Some [], biomarkers = [],
      medications = Some [], ethnicity = None, location_region = None\<rparr>"

definition open_trial :: "nat \<Rightarrow> trial" where
  "open_trial n =
     \<lparr>trial_uuid = n, nct_id = ''NCT'', trial_conditions = Some [], age_min = None,
      age_max = None, gender_eligibility = ''all'', required_biomarkers = [],
      excluded_conditions = [], excluded_medications = []\<rparr>"

text \<open>A trial whose condition list is \<open>None\<close>: the condition rule raises on it.\<close>

definition broken_trial :: "nat \<Rightarrow> trial" where
  "broken_trial n = (open_trial n)\<lparr>trial_conditions := None\<rparr>"

text \<open>A language-model service that always fails, and one that always answers.\<close>

definition failing_llm :: llm_service where
  "failing_llm pr = Inl ServiceError"

definition answering_llm :: llm_service where
  "answering_llm pr = Inr '' A good match. ''"

definition fixed_clock :: "nat \<Rightarrow> string" where
  "fixed_clock i = ''2024-01-01T00:00:00''"

text \<open>The scores of \<open>open_trial\<close> for \<open>blank_patient\<close>, its trace at the time \<open>ts\<close>, and
  what the scoring steps compute from them.\<close>

definition open_scores :: "(string \<times> real) list" where
  "open_scores = [(''age_eligibility'', 1 / 2), (''gender_eligibility'', 1),
                  (''biomarker_match'', 1), (''condition_match'', 1 / 2),
                  (''no_contraindications'', 1)]"

definition open_trace :: "string \<Rightarrow> trace" where
  "open_trace ts =
     \<lparr>tr_nct_id = ''NCT'', tr_timestamp = ts, tr_scores = open_scores, tr_conclusion = True\<rparr>"

definition open_scoring :: "string \<Rightarrow> scoring" where
  "open_scoring ts =
     \<lparr>is_eligible = True, base_confidence = 155 / 2, metta_reasoning = open_trace ts,
      diversity_bonus = 0, diversity_factors = [], final_confidence = 155 / 2\<rparr>"



text \<open>Scenario D: every diversity factor applies.\<close>

definition scenario_D_patient :: patient_profile where
  "scenario_D_patient =
     blank_patient\<lparr>ethnicity := Some ''hispanic'', gender := Some ''female'',
                   location_region := Some ''Rural County'', age_range := Some ''65+''\<rparr>"

text \<open>A trial whose lower age bound lies above its upper bound, and a patient whose age
  range spans both bounds.\<close>

definition inverted_trial :: trial where
  "inverted_trial =
     \<lparr>trial_uuid = 1, nct_id = ''NCT'', trial_conditions = Some [''asthma''],
      age_min = Some 28, age_max = Some 23, gender_eligibility = ''female'',
      required_biomarkers = [(''egfr'', ''positive'')], excluded_conditions = [],
      excluded_medications = [''aspirin'']\<rparr>"

definition spanning_patient :: patient_profile where
  "spanning_patient =
     \<lparr>age_range = Some ''20-29'', gender = Some ''male'', conditions = Some [],
      biomarkers = [], medications = Some [''aspirin''], ethnicity = None,
      location_region = None\<rparr>"

text \<open>A biomarker stored under an uppercase name and required under the lowercase one.\<close>

definition egfr_patient :: patient_profile where
  "egfr_patient = blank_patient\<lparr>biomarkers := [(''EGFR'', ''positive'')]\<rparr>"

definition egfr_trial :: trial where
  "egfr_trial = (open_trial 1)\<lparr>required_biomarkers := [(''egfr'', ''positive'')]\<rparr>"

section \<open>Bounds of the rule scores\<close>

lemma rule_age_in_range_le_1: "rule_age_in_range p t \<le> 1"
  by (auto simp: rule_age_in_range_def Let_def divide_le_eq_1 split: option.splits)

lemma rule_age_in_range_ge_0:
  assumes "py_or (age_min t) 0 \<le> py_or (age_max t) 120"
  shows "0 \<le> rule_age_in_range p t"
  using assms by (auto simp: rule_age_in_range_def Let_def zero_le_divide_iff split: option.splits)

lemma rule_gender_match_cases:
  "rule_gender_match p t = 0 \<or> rule_gender_match p t = 1 / 2 \<or> rule_gender_match p t = 1"
  by (simp add: rule_gender_match_def Let_def split: option.splits)

lemma rule_gender_match_bounds: "0 \<le> rule_gender_match p t \<and> rule_gender_match p t \<le> 1"
  using rule_gender_match_cases [of p t] by auto

lemma rule_has_biomarkers_bounds:
  "0 \<le> rule_has_biomarkers p t \<and> rule_has_biomarkers p t \<le> 1"
  by (simp add: rule_has_biomarkers_def Let_def divide_le_eq_1)

lemma rule_condition_match_bounds:
  assumes "rule_condition_match p t = Inr c"
  shows "0 \<le> c \<and> c \<le> 1"
proof (cases "trial_conditions t")
  case None
  with assms show ?thesis by (simp add: rule_condition_match_def)
next
  case tcs: (Some tcs)
  show ?thesis
  proof (cases "conditions p")
    case None
    with assms tcs show ?thesis by (simp add: rule_condition_match_def)
  next
    case (Some pcs)
    with assms tcs show ?thesis
      by (auto simp: rule_condition_match_def Let_def divide_le_eq_1 split: if_splits)
  qed
qed

lemma rule_no_contraindications_cases:
  assumes "rule_no_contraindications p t = Inr n"
  shows "n = 0 \<or> n = 1"
  using assms
  by (auto simp: rule_no_contraindications_def Let_def split: option.splits if_splits)

lemma bonus_bounds:
  "0 \<le> fst (calculate_diversity_bonus p) \<and> fst (calculate_diversity_bonus p) \<le> 13"
  by (simp add: calculate_diversity_bonus_def Let_def split: option.splits)

section \<open>Totality and unfolding of the aggregation\<close>




lemma reason_unfold:
  assumes "rule_condition_match p t = Inr c" and "rule_no_contraindications p t = Inr n"
  shows "reason now p t =
     Inr (\<not> (rule_age_in_range p t < 1 / 2 \<or> rule_gender_match p t < 1 / 2 \<or> n < 1 / 2),
          min ((if rule_age_in_range p t < 1 / 2 \<or> rule_gender_match p t < 1 / 2 \<or> n < 1 / 2
                then (rule_age_in_range p t + rule_gender_match p t + rule_has_biomarkers p t + c + n) / 5 * (3 / 10)
                else 15 / 100 * rule_age_in_range p t + 10 / 100 * rule_gender_match p t
                     + 30 / 100 * rule_has_biomarkers p t + 30 / 100 * c + 15 / 100 * n) * 100) 100,
          generate_metta_trace now t
            [(''age_eligibility'', rule_age_in_range p t), (''gender_eligibility'', rule_gender_match p t),
             (''biomarker_match'', rule_has_biomarkers p t), (''condition_match'', c),
             (''no_contraindications'', n)])"
  using assms
  by (simp add: reason_def rule_scores_def critical_rules_def weights_get_def weights_def Let_def add.assoc)

lemma reason_Inr_D:
  assumes "reason now p t = Inr r"
  shows "\<exists>c n. rule_condition_match p t = Inr c \<and> rule_no_contraindications p t = Inr n"
  using assms by (auto simp: reason_def rule_scores_def Let_def split: sum.splits)

lemma reason_Inl_iff:
  "reason now p t = Inl e \<longleftrightarrow> rule_scores p t = Inl e"
  by (auto simp: reason_def Let_def split: sum.splits)

lemma rule_scores_Inr_trial_conditions:
  assumes "rule_scores p t = Inr scores"
  shows "trial_conditions t \<noteq> None"
  using assms
  by (auto simp: rule_scores_def rule_condition_match_def Let_def split: sum.splits option.splits)

lemma collect_append: "collect mc (xs @ ys) = collect mc xs @ collect mc ys"
  by (induction mc xs rule: collect.induct) auto

lemma collect_map_Some:
  "collect mc (map (\<lambda>m. Inr (Some m)) ms) = filter (\<lambda>m. mc \<le> confidence_score m) ms"
  by (induction ms) auto

lemma collect_member:
  assumes "m \<in> set (collect mc rs)"
  shows "Inr (Some m) \<in> set rs \<and> mc \<le> confidence_score m"
  using assms by (induction mc rs rule: collect.induct) (auto split: if_splits)

lemma py_sort_desc_sorted: "sorted_wrt (\<lambda>a b. k a \<ge> k b) (py_sort_desc k xs)"
proof -
  have "sorted (map k (sort_key k (rev xs)))"
    by (rule sorted_sort_key)
  then have "sorted_wrt (\<lambda>a b. k a \<le> k b) (sort_key k (rev xs))"
    by (simp only: sorted_map)
  then show ?thesis
    by (simp add: py_sort_desc_def sorted_wrt_rev)
qed

lemma py_sort_desc_stable:
  "filter (\<lambda>x. k x = c) (py_sort_desc k xs) = filter (\<lambda>x. k x = c) xs"
proof -
  have "filter (\<lambda>x. k x = c) (py_sort_desc k xs) = rev (filter (\<lambda>x. k x = c) (sort_key k (rev xs)))"
    by (simp add: py_sort_desc_def rev_filter)
  also have "\<dots> = rev (filter (\<lambda>x. k x = c) (rev xs))"
    by (simp only: sort_key_stable)
  also have "\<dots> = filter (\<lambda>x. k x = c) xs"
    by (simp add: rev_filter)
  finally show ?thesis .
qed

lemma py_slice_to_sorted: "sorted_wrt P xs \<Longrightarrow> sorted_wrt P (py_slice_to n xs)"
  by (simp add: py_slice_to_def)

lemma set_py_slice_to: "set (py_slice_to n xs) \<subseteq> set xs"
  by (auto simp: py_slice_to_def dest: in_set_takeD)

lemma set_py_sort_desc: "set (py_sort_desc k xs) = set xs"
  by (simp add: py_sort_desc_def)

lemma reason_Inr_trial_conditions:
  assumes "reason now p t = Inr r"
  shows "\<exists>tcs. trial_conditions t = Some tcs"
proof -
  from assms obtain scores where "rule_scores p t = Inr scores"
    by (auto simp: reason_def Let_def split: sum.splits)
  then show ?thesis
    using rule_scores_Inr_trial_conditions by blast
qed

lemma reason_other_clock:
  assumes "reason now2 p t = Inr (el, base, tr2)"
  shows "\<exists>tr1. reason now1 p t = Inr (el, base, tr1) \<and> tr_scores tr1 = tr_scores tr2"
  using assms
  by (auto simp: reason_def generate_metta_trace_def Let_def split: sum.splits)


section \<open>What the evaluation of a trial always does\<close>

text \<open>No call of \<open>CriteriaCheck\<close> in the matcher gives the required \<open>confidence\<close>, so the
  first check of the inclusion list is never built; the body of \<open>_evaluate_trial\<close> raises
  on every input, the function returns \<open>None\<close>, and \<open>find_matches\<close> returns the empty
  list.\<close>

lemma CriteriaCheck_without_confidence: "CriteriaCheck crit ok None = Inl ValidationError"
  by (simp add: CriteriaCheck_def)

lemma build_inclusion_checks_raises: "build_inclusion_checks p t = Inl ValidationError"
  by (simp add: build_inclusion_checks_def CriteriaCheck_without_confidence)

lemma evaluate_trial_body_raises: "\<exists>e. evaluate_trial_body now llm pid p t = Inl e"
  by (simp add: evaluate_trial_body_def build_inclusion_checks_raises split: sum.splits)

lemma evaluate_trial_None: "evaluate_trial now llm pid p t = Inr None"
  using evaluate_trial_body_raises [of now llm pid p t]
  by (auto simp: evaluate_trial_def)

lemma gather_None: "gather clock llm pid p trials = map (\<lambda>x. Inr None) (enumerate 0 trials)"
  by (simp add: gather_def evaluate_trial_None split_def)

lemma collect_None: "collect mc (map (\<lambda>x. Inr None) xs) = []"
  by (induction xs) simp_all

lemma find_matches_empty: "find_matches clock llm pid p trials mc k = []"
  by (simp add: find_matches_def gather_None collect_None py_sort_desc_def py_slice_to_def)

lemma score_trial_Inr_D:
  assumes "score_trial now p t = Inr s"
  shows "reason now p t = Inr (is_eligible s, base_confidence s, metta_reasoning s)
         \<and> final_confidence s = min (base_confidence s + fst (calculate_diversity_bonus p)) 100
         \<and> diversity_bonus s = fst (calculate_diversity_bonus p)
         \<and> diversity_factors s = snd (calculate_diversity_bonus p)"
  using assms
  by (auto simp: score_trial_def Let_def split: sum.splits prod.splits)

lemma score_trial_Inl_iff: "score_trial now p t = Inl e \<longleftrightarrow> reason now p t = Inl e"
  by (auto simp: score_trial_def Let_def split: sum.splits prod.splits)

lemma open_trial_scoring:
  "score_trial ts blank_patient (open_trial n) = Inr (open_scoring ts)"
  by code_simp

section \<open>The eligibility gate and the base confidence\<close>






section \<open>The order of the ranked list\<close>

text \<open>
  Claim C2. The list that \<open>find_matches\<close> returns is sorted by confidence, non-increasing,
  and of two returned matches of equal confidence the one with the smaller trial identifier
  comes first. The claim holds of every returned list because the list is always empty:
  every evaluation ends in the \<open>ValidationError\<close> of the first criteria check. The sort
  itself is stable and looks at the confidence only (\<open>py_sort_desc_sorted\<close>,
  \<open>py_sort_desc_stable\<close>).
\<close>

theorem find_matches_ranked:
  "sorted_wrt (\<lambda>a b. confidence_score b < confidence_score a
                      \<or> (confidence_score a = confidence_score b \<and> trial_id a \<le> trial_id b))
     (find_matches clock llm pid p trials mc k)
   \<and> find_matches clock llm pid p trials mc k = []"
  by (simp add: find_matches_empty)

section \<open>One failing candidate\<close>

lemma collect_skips_failure:
  assumes "r = Inr None \<or> (\<exists>e. r = Inl e)"
  shows "collect mc (rs1 @ r # rs2) = collect mc (rs1 @ rs2)"
  using assms by (auto simp: collect_append)

lemma length_gather: "length (gather clock llm pid p trials) = length trials"
  by (simp add: gather_def)

text \<open>
  Claim C3. When the evaluation of one trial of a batch fails (its outcome among the
  gathered results is an exception or \<open>None\<close>), \<open>find_matches\<close> still returns, and what it
  returns is made of the outcomes of the other trials alone: their matches, filtered by the
  threshold, ranked and sliced. The failing trial contributes nothing, and the others are
  all but one of the batch. (On this code the outcomes of the others are failures as well.)
\<close>

theorem find_matches_isolates_failure:
  assumes "gather clock llm pid p trials = rs1 @ r # rs2"
    and "r = Inr None \<or> (\<exists>e. r = Inl e)"
  shows "find_matches clock llm pid p trials mc k
           = py_slice_to k (py_sort_desc confidence_score (collect mc (rs1 @ rs2)))
         \<and> length (rs1 @ rs2) + 1 = length trials"
proof -
  have "collect mc (gather clock llm pid p trials) = collect mc (rs1 @ rs2)"
    by (simp only: assms(1) collect_skips_failure [OF assms(2)])
  then have "find_matches clock llm pid p trials mc k
           = py_slice_to k (py_sort_desc confidence_score (collect mc (rs1 @ rs2)))"
    by (simp add: find_matches_def Let_def)
  moreover have "length (rs1 @ rs2) + 1 = length trials"
    using length_gather [of clock llm pid p trials] by (simp add: assms(1))
  ultimately show ?thesis by blast
qed

lemma broken_trial_body:
  "evaluate_trial_body (fixed_clock 1) failing_llm 7 blank_patient (broken_trial 2) = Inl TypeError"
  by code_simp

lemma one_broken_of_three:
  "gather fixed_clock failing_llm 7 blank_patient [open_trial 1, broken_trial 2, open_trial 3]
     = [Inr None] @ Inr None # [Inr None]"
  by (simp add: gather_None)

theorem find_matches_isolates_failure_witness:
  "evaluate_trial_body (fixed_clock 1) failing_llm 7 blank_patient (broken_trial 2) = Inl TypeError
   \<and> gather fixed_clock failing_llm 7 blank_patient [open_trial 1, broken_trial 2, open_trial 3]
       = [Inr None] @ Inr None # [Inr None]
   \<and> find_matches fixed_clock failing_llm 7 blank_patient
        [open_trial 1, broken_trial 2, open_trial 3] 40 10
       = py_slice_to 10 (py_sort_desc confidence_score (collect 40 ([Inr None] @ [Inr None])))
   \<and> length ([Inr None] @ [Inr None] :: (py_error + match_create option) list) + 1
       = length [open_trial 1, broken_trial 2, open_trial 3]"
  using find_matches_isolates_failure [OF one_broken_of_three, of 40 10]
    one_broken_of_three broken_trial_body
  by simp

section \<open>The biomarker predicate, characterised\<close>

text \<open>
  Claim C4, as amended. \<open>biomarker_matches\<close> holds exactly when the two strings are equal,
  or both are positive synonyms, or both are negative synonyms, or the requirement contains
  \<open>>=\<close> and the patient's value with every percent sign deleted parses as a number that is
  at least the number left of the requirement after deleting every \<open>>=\<close> and every percent
  sign, or the requirement contains \<open><=\<close> but no \<open>>=\<close> and the same holds with \<open><=\<close> and
  "at most". A text that does not parse makes the comparison false; the function is total.
\<close>

theorem biomarker_matches_characterisation:
  "biomarker_matches pv rv \<longleftrightarrow>
     pv = rv
     \<or> (pv \<in> set positive_terms \<and> rv \<in> set positive_terms)
     \<or> (pv \<in> set negative_terms \<and> rv \<in> set negative_terms)
     \<or> (contains ''>='' rv
         \<and> (\<exists>x th. py_float (strip (replace_empty ''%'' pv)) = Some x
                   \<and> py_float (strip (replace_empty ''%'' (replace_empty ''>='' rv))) = Some th
                   \<and> float_ge x th))
     \<or> (contains ''<='' rv \<and> \<not> contains ''>='' rv
         \<and> (\<exists>x th. py_float (strip (replace_empty ''%'' pv)) = Some x
                   \<and> py_float (strip (replace_empty ''%'' (replace_empty ''<='' rv))) = Some th
                   \<and> float_le x th))"
  by (auto simp: biomarker_matches_def split: option.splits)

text \<open>
  The comparison sign need not stand at the start of the requirement: \<open>5>=\<close> is read as
  the threshold 5, which the specification's wording does not accept.
\<close>

theorem biomarker_matches_contains_counterexample:
  "biomarker_matches ''6'' ''5>='' \<and> \<not> biomarkerMatches_spec ''6'' ''5>=''"
  by code_simp

lemma sixty_percent_parses:
  "contains ''>='' ''>=50%''
   \<and> py_float (strip (replace_empty ''%'' ''60%'')) = Some (Fin 60)
   \<and> py_float (strip (replace_empty ''%'' (replace_empty ''>='' ''>=50%''))) = Some (Fin 50)
   \<and> float_ge (Fin 60) (Fin 50)"
  by code_simp

theorem biomarker_matches_characterisation_witness:
  "''60%'' \<noteq> ''>=50%'' \<and> biomarker_matches ''60%'' ''>=50%''"
  using biomarker_matches_characterisation [of "''60%''" "''>=50%''"] sixty_percent_parses
  by auto

section \<open>The ranges of the scores and of the confidence\<close>

lemma reason_base_nonneg:
  assumes "py_or (age_min t) 0 \<le> py_or (age_max t) 120"
    and "reason now p t = Inr (el, base, tr)"
  shows "0 \<le> base"
proof -
  obtain c n where c: "rule_condition_match p t = Inr c"
    and n: "rule_no_contraindications p t = Inr n"
    using reason_Inr_D [OF assms(2)] by blast
  have a0: "0 \<le> rule_age_in_range p t"
    by (rule rule_age_in_range_ge_0 [OF assms(1)])
  have g0: "0 \<le> rule_gender_match p t"
    using rule_gender_match_bounds by blast
  have b0: "0 \<le> rule_has_biomarkers p t"
    using rule_has_biomarkers_bounds by blast
  have c0: "0 \<le> c"
    using rule_condition_match_bounds [OF c] by blast
  have n0: "0 \<le> n"
    using rule_no_contraindications_cases [OF n] by auto
  from assms(2) show ?thesis
    using a0 g0 b0 c0 n0 by (auto simp: reason_unfold [OF c n] min_def split: if_splits)
qed

text \<open>
  Claim C5, as amended. For a trial whose effective age bounds are in order (lower bound,
  default 0, at most the upper bound, default 120), each of the five rule scores lies in
  [0, 1], and the final confidence that the evaluation computes (the base confidence plus
  the bonus, capped at 100) lies in [0, 100]. No match record is built from it: the
  evaluation ends at the construction of the first criteria check.
\<close>

theorem scores_and_confidence_bounded:
  assumes "py_or (age_min t) 0 \<le> py_or (age_max t) 120"
  shows "0 \<le> rule_age_in_range p t \<and> rule_age_in_range p t \<le> 1
       \<and> 0 \<le> rule_gender_match p t \<and> rule_gender_match p t \<le> 1
       \<and> 0 \<le> rule_has_biomarkers p t \<and> rule_has_biomarkers p t \<le> 1
       \<and> (\<forall>c. rule_condition_match p t = Inr c \<longrightarrow> 0 \<le> c \<and> c \<le> 1)
       \<and> (\<forall>n. rule_no_contraindications p t = Inr n \<longrightarrow> 0 \<le> n \<and> n \<le> 1)
       \<and> (\<forall>s. score_trial now p t = Inr s
              \<longrightarrow> 0 \<le> final_confidence s \<and> final_confidence s \<le> 100)"
proof -
  have conf: "0 \<le> final_confidence s \<and> final_confidence s \<le> 100"
    if s: "score_trial now p t = Inr s" for s
  proof -
    have r: "reason now p t = Inr (is_eligible s, base_confidence s, metta_reasoning s)"
      and cs: "final_confidence s = min (base_confidence s + fst (calculate_diversity_bonus p)) 100"
      using score_trial_Inr_D [OF s] by blast+
    have "0 \<le> base_confidence s"
      by (rule reason_base_nonneg [OF assms r])
    moreover have "0 \<le> fst (calculate_diversity_bonus p)"
      using bonus_bounds by blast
    ultimately show ?thesis
      by (simp add: cs)
  qed
  have contra: "0 \<le> n \<and> n \<le> 1" if "rule_no_contraindications p t = Inr n" for n
    using rule_no_contraindications_cases [OF that] by auto
  show ?thesis
    using rule_age_in_range_ge_0 [OF assms, of p] rule_age_in_range_le_1 [of p t]
      rule_gender_match_bounds [of p t] rule_has_biomarkers_bounds [of p t]
      rule_condition_match_bounds [of p t] contra conf
    by blast
qed

text \<open>
  Without the order of the bounds the claim fails: for the age range 20-29 and a trial with
  the bounds 28 and 23 the age score is -2/5, and the final confidence that the evaluation
  computes is negative.
\<close>

theorem inverted_bounds_counterexample:
  "rule_age_in_range spanning_patient inverted_trial = - (2 / 5)
   \<and> map_sum id (\<lambda>s. final_confidence s < 0)
       (score_trial ''2024-01-01'' spanning_patient inverted_trial) = Inr True"
  by code_simp

lemma open_trial_bounds: "py_or (age_min (open_trial 1)) 0 \<le> py_or (age_max (open_trial 1)) 120"
  by code_simp

lemma open_trial_rules:
  "rule_condition_match blank_patient (open_trial 1) = Inr (1 / 2)
   \<and> rule_no_contraindications blank_patient (open_trial 1) = Inr 1"
  by code_simp

lemma open_scoring_final: "final_confidence (open_scoring ts) = 155 / 2"
  by (simp add: open_scoring_def)

theorem scores_and_confidence_bounded_witness:
  "py_or (age_min (open_trial 1)) 0 \<le> py_or (age_max (open_trial 1)) 120
   \<and> rule_condition_match blank_patient (open_trial 1) = Inr (1 / 2)
   \<and> rule_no_contraindications blank_patient (open_trial 1) = Inr 1
   \<and> score_trial ''2024-01-01'' blank_patient (open_trial 1) = Inr (open_scoring ''2024-01-01'')
   \<and> final_confidence (open_scoring ''2024-01-01'') = 155 / 2
   \<and> 0 \<le> final_confidence (open_scoring ''2024-01-01'')
   \<and> final_confidence (open_scoring ''2024-01-01'') \<le> 100"
  using scores_and_confidence_bounded [OF open_trial_bounds, of blank_patient "''2024-01-01''"]
    open_trial_bounds open_trial_rules open_trial_scoring [of "''2024-01-01''" 1]
    open_scoring_final [of "''2024-01-01''"]
  by blast

section \<open>The diversity bonus\<close>

text \<open>
  Claim C6. The bonus is the minimum of 15 and the sum of 5 for an ethnicity in the
  underrepresented set, 3 for the gender female, 3 for a location that contains a rural
  keyword and 2 for an age range that contains \<open>65\<close>, the first three compared in
  lowercase; it lies in [0, 15], and the profile of scenario D receives 13.
\<close>

theorem diversity_bonus_value:
  "fst (calculate_diversity_bonus p) =
     min ((if (\<exists>e. ethnicity p = Some e \<and> lower e \<in> set underrepresented_ethnicities) then 5 else 0)
          + (if (\<exists>g. gender p = Some g \<and> lower g = ''female'') then 3 else 0)
          + (if (\<exists>l. location_region p = Some l
                    \<and> list_ex (\<lambda>ind. contains ind (lower l)) rural_indicators) then 3 else 0)
          + (if (\<exists>a. age_range p = Some a \<and> contains ''65'' a) then 2 else 0)) 15
   \<and> 0 \<le> fst (calculate_diversity_bonus p) \<and> fst (calculate_diversity_bonus p) \<le> 15
   \<and> calculate_diversity_bonus scenario_D_patient
       = (13, [''underrepresented_ethnicity:hispanic'', ''gender:female'', ''location:rural'',
               ''age:65+''])"
proof -
  have d: "calculate_diversity_bonus scenario_D_patient
       = (13, [''underrepresented_ethnicity:hispanic'', ''gender:female'', ''location:rural'',
               ''age:65+''])"
    by code_simp
  have v: "fst (calculate_diversity_bonus p) =
     min ((if (\<exists>e. ethnicity p = Some e \<and> lower e \<in> set underrepresented_ethnicities) then 5 else 0)
          + (if (\<exists>g. gender p = Some g \<and> lower g = ''female'') then 3 else 0)
          + (if (\<exists>l. location_region p = Some l
                    \<and> list_ex (\<lambda>ind. contains ind (lower l)) rural_indicators) then 3 else 0)
          + (if (\<exists>a. age_range p = Some a \<and> contains ''65'' a) then 2 else 0)) 15"
    by (auto simp: calculate_diversity_bonus_def Let_def underrepresented_ethnicities_def
        rural_indicators_def lower_def startswith_def split: option.splits)
  show ?thesis
    using d v bonus_bounds [of p] by auto
qed

section \<open>Errors inside the evaluation of one trial\<close>

text \<open>
  Claim C7, as amended. \<open>evaluate_trial\<close> never raises. An error of the rule evaluation or
  of the building of the checklist is swallowed: the result is \<open>None\<close>. A failure of the
  language-model service alone is recovered inside \<open>generate_explanation\<close>, which then
  returns the fallback built from the confidence; its answer is returned stripped.
\<close>

theorem evaluate_trial_swallows_errors:
  "(\<exists>r. evaluate_trial now llm pid p t = Inr r)
   \<and> (\<forall>e. reason now p t = Inl e \<longrightarrow> evaluate_trial now llm pid p t = Inr None)
   \<and> (\<forall>e. build_inclusion_checks p t = Inl e \<longrightarrow> evaluate_trial now llm pid p t = Inr None)
   \<and> (\<forall>tcs el c tr. trial_conditions t = Some tcs \<longrightarrow>
         generate_explanation llm p t el c tr =
           Inr (case llm \<lparr>pr_patient = p, pr_trial = t, pr_is_eligible = el,
                           pr_confidence = c, pr_reasoning = tr\<rparr> of
                  Inl e \<Rightarrow> Fallback c
                | Inr response \<Rightarrow> Generated (strip response)))"
proof -
  have one: "\<exists>r. evaluate_trial now llm pid p t = Inr r"
    by (simp add: evaluate_trial_def split: sum.splits)
  have two: "evaluate_trial now llm pid p t = Inr None" if "reason now p t = Inl e" for e
    using that by (simp add: evaluate_trial_def evaluate_trial_body_def score_trial_def)
  have three: "evaluate_trial now llm pid p t = Inr None"
    if "build_inclusion_checks p t = Inl e" for e
    using that
    by (simp add: evaluate_trial_def evaluate_trial_body_def split: sum.splits)
  have four: "generate_explanation llm p t el c tr =
           Inr (case llm \<lparr>pr_patient = p, pr_trial = t, pr_is_eligible = el,
                           pr_confidence = c, pr_reasoning = tr\<rparr> of
                  Inl e \<Rightarrow> Fallback c
                | Inr response \<Rightarrow> Generated (strip response))"
    if "trial_conditions t = Some tcs" for tcs el c tr
    using that by (simp add: generate_explanation_def split: sum.splits)
  show ?thesis
    using one two three four by blast
qed

text \<open>
  The error is not surfaced: for a trial whose condition list is \<open>None\<close> the rule
  evaluation raises a \<open>TypeError\<close>, and \<open>evaluate_trial\<close> returns \<open>None\<close>.
\<close>

theorem evaluate_trial_swallows_counterexample:
  "reason ''2024-01-01'' blank_patient (broken_trial 1) = Inl TypeError
   \<and> evaluate_trial ''2024-01-01'' failing_llm 7 blank_patient (broken_trial 1) = Inr None
   \<and> evaluate_trial ''2024-01-01'' failing_llm 7 blank_patient (broken_trial 1) \<noteq> Inl TypeError"
  by code_simp

lemma broken_trial_reason: "reason ''2024-01-01'' blank_patient (broken_trial 1) = Inl TypeError"
  by code_simp

lemma open_trial_checks:
  "build_inclusion_checks blank_patient (open_trial 1) = Inl ValidationError
   \<and> trial_conditions (open_trial 1) = Some []"
  by code_simp

lemma failing_llm_fails: "failing_llm pr = Inl ServiceError"
  by (simp add: failing_llm_def)

theorem evaluate_trial_swallows_errors_witness:
  "reason ''2024-01-01'' blank_patient (broken_trial 1) = Inl TypeError
   \<and> evaluate_trial ''2024-01-01'' failing_llm 7 blank_patient (broken_trial 1) = Inr None
   \<and> build_inclusion_checks blank_patient (open_trial 1) = Inl ValidationError
   \<and> evaluate_trial ''2024-01-01'' failing_llm 7 blank_patient (open_trial 1) = Inr None
   \<and> trial_conditions (open_trial 1) = Some []
   \<and> generate_explanation failing_llm blank_patient (open_trial 1) True (155 / 2)
        (open_trace ''2024-01-01'') = Inr (Fallback (155 / 2))"
proof -
  have broken: "evaluate_trial ''2024-01-01'' failing_llm 7 blank_patient (broken_trial 1) = Inr None"
    using evaluate_trial_swallows_errors
        [of "''2024-01-01''" failing_llm 7 blank_patient "broken_trial 1"]
      broken_trial_reason
    by blast
  have opened: "evaluate_trial ''2024-01-01'' failing_llm 7 blank_patient (open_trial 1) = Inr None"
    using evaluate_trial_swallows_errors
        [of "''2024-01-01''" failing_llm 7 blank_patient "open_trial 1"]
      open_trial_checks
    by blast
  have "generate_explanation failing_llm blank_patient (open_trial 1) True (155 / 2)
          (open_trace ''2024-01-01'') =
        Inr (case failing_llm \<lparr>pr_patient = blank_patient, pr_trial = open_trial 1,
                                 pr_is_eligible = True, pr_confidence = 155 / 2,
                                 pr_reasoning = open_trace ''2024-01-01''\<rparr> of
               Inl e \<Rightarrow> Fallback (155 / 2)
             | Inr response \<Rightarrow> Generated (strip response))"
    using evaluate_trial_swallows_errors
        [of "''2024-01-01''" failing_llm 7 blank_patient "open_trial 1"]
      open_trial_checks
    by blast
  then have "generate_explanation failing_llm blank_patient (open_trial 1) True (155 / 2)
          (open_trace ''2024-01-01'') = Inr (Fallback (155 / 2))"
    by (simp add: failing_llm_fails)
  with broken opened broken_trial_reason open_trial_checks show ?thesis
    by blast
qed

section \<open>Repeated evaluation\<close>

lemma score_trial_other_clock:
  "map_sum id deterministic_part (score_trial now1 p t)
     = map_sum id deterministic_part (score_trial now2 p t)"
proof (cases "reason now2 p t")
  case (Inl e)
  then have "reason now1 p t = Inl e"
    by (simp add: reason_Inl_iff)
  with Inl show ?thesis
    by (simp add: score_trial_def)
next
  case (Inr r)
  then obtain el base tr2 where r2: "reason now2 p t = Inr (el, base, tr2)"
    by (cases r) auto
  obtain tr1 where r1: "reason now1 p t = Inr (el, base, tr1)"
    and sc: "tr_scores tr1 = tr_scores tr2"
    using reason_other_clock [OF r2] by blast
  show ?thesis
    by (simp add: score_trial_def r1 r2 sc deterministic_part_def Let_def)
qed

text \<open>
  Claim C8. Two evaluations of the same patient and trial, at any two readings of the clock
  and with any two language-model services, fail alike in the scoring or agree on the rule
  scores, the eligibility, the base confidence, the bonus and the final confidence, and
  they return the same result; when both services fail, the two explanations are the same
  fallback. The checklist builders read neither the clock nor the service.
\<close>

theorem evaluation_deterministic:
  "map_sum id deterministic_part (score_trial now1 p t)
     = map_sum id deterministic_part (score_trial now2 p t)
   \<and> evaluate_trial now1 llm1 pid p t = evaluate_trial now2 llm2 pid p t
   \<and> (\<forall>el c tr1 tr2 e1 e2.
         llm1 \<lparr>pr_patient = p, pr_trial = t, pr_is_eligible = el, pr_confidence = c,
               pr_reasoning = tr1\<rparr> = Inl e1
         \<and> llm2 \<lparr>pr_patient = p, pr_trial = t, pr_is_eligible = el, pr_confidence = c,
                 pr_reasoning = tr2\<rparr> = Inl e2
         \<longrightarrow> generate_explanation llm1 p t el c tr1 = generate_explanation llm2 p t el c tr2)"
proof -
  have "generate_explanation llm1 p t el c tr1 = generate_explanation llm2 p t el c tr2"
    if "llm1 \<lparr>pr_patient = p, pr_trial = t, pr_is_eligible = el, pr_confidence = c,
               pr_reasoning = tr1\<rparr> = Inl e1"
      and "llm2 \<lparr>pr_patient = p, pr_trial = t, pr_is_eligible = el, pr_confidence = c,
               pr_reasoning = tr2\<rparr> = Inl e2"
    for el c tr1 tr2 e1 e2
    using that by (simp add: generate_explanation_def split: option.splits)
  then show ?thesis
    using score_trial_other_clock [of now1 p t now2]
    by (simp add: evaluate_trial_None)
qed

lemma open_scoring_part:
  "deterministic_part (open_scoring ts) = (open_scores, True, 155 / 2, 0, [], 155 / 2)"
  by (simp add: deterministic_part_def open_scoring_def open_trace_def)

lemma failing_llm_explanation:
  "generate_explanation failing_llm blank_patient (open_trial 1) True (155 / 2) (open_trace ts)
     = Inr (Fallback (155 / 2))"
  by code_simp

theorem evaluation_deterministic_witness:
  "score_trial ''2024-01-01'' blank_patient (open_trial 1) = Inr (open_scoring ''2024-01-01'')
   \<and> score_trial ''2025-06-30'' blank_patient (open_trial 1) = Inr (open_scoring ''2025-06-30'')
   \<and> deterministic_part (open_scoring ''2024-01-01'') = deterministic_part (open_scoring ''2025-06-30'')
   \<and> evaluate_trial ''2024-01-01'' failing_llm 7 blank_patient (open_trial 1)
     = evaluate_trial ''2025-06-30'' answering_llm 7 blank_patient (open_trial 1)
   \<and> generate_explanation failing_llm blank_patient (open_trial 1) True (155 / 2)
        (open_trace ''2024-01-01'')
     = generate_explanation failing_llm blank_patient (open_trial 1) True (155 / 2)
        (open_trace ''2025-06-30'')
   \<and> generate_explanation failing_llm blank_patient (open_trial 1) True (155 / 2)
        (open_trace ''2024-01-01'') = Inr (Fallback (155 / 2))"
proof -
  have one: "deterministic_part (open_scoring ''2024-01-01'')
               = deterministic_part (open_scoring ''2025-06-30'')
             \<and> evaluate_trial ''2024-01-01'' failing_llm 7 blank_patient (open_trial 1)
               = evaluate_trial ''2025-06-30'' answering_llm 7 blank_patient (open_trial 1)"
    using evaluation_deterministic
        [of "''2024-01-01''" blank_patient "open_trial 1" "''2025-06-30''" failing_llm 7
            answering_llm]
      open_trial_scoring [of "''2024-01-01''" 1] open_trial_scoring [of "''2025-06-30''" 1]
    by simp
  have two: "generate_explanation failing_llm blank_patient (open_trial 1) True (155 / 2)
        (open_trace ''2024-01-01'')
     = generate_explanation failing_llm blank_patient (open_trial 1) True (155 / 2)
        (open_trace ''2025-06-30'')"
    using evaluation_deterministic
        [of "''2024-01-01''" blank_patient "open_trial 1" "''2025-06-30''" failing_llm 7
            failing_llm]
      failing_llm_fails
    by blast
  show ?thesis
    using one two open_trial_scoring [of "''2024-01-01''" 1]
      open_trial_scoring [of "''2025-06-30''" 1] failing_llm_explanation [of "''2024-01-01''"]
    by blast
qed

section \<open>The confidence of an ineligible evaluation\<close>






section \<open>Biomarker names in the score and in the checklist\<close>

text \<open>
  Claim C10, at the input on which the code departs from it. The patient stores the
  biomarker as \<open>EGFR\<close>, the trial requires \<open>egfr\<close>, and the values match. The biomarker
  rule scores 1, and the value \<open>passed\<close> that the builder of the inclusion list would give
  the biomarker's check is \<open>False\<close>; but no check is built: the builder raises the
  \<open>ValidationError\<close> of the first criteria check, and the evaluation returns \<open>None\<close>.
\<close>

theorem biomarker_check_never_built:
  "rule_has_biomarkers egfr_patient egfr_trial = 1
   \<and> \<not> biomarker_passed egfr_patient (''egfr'', ''positive'')
   \<and> build_inclusion_checks egfr_patient egfr_trial = Inl ValidationError
   \<and> evaluate_trial ''2024-01-01'' failing_llm 7 egfr_patient egfr_trial = Inr None"
  by code_simp

end
